theory Spec2Isabelle
  imports Main
begin

section \<open>The messages-worker SDK: data model\<close>

text \<open>
  The Go package \<^verbatim>\<open>sdk\<close> is a client of a remote HTTP service. Every operation is
  one synchronous call. The model keeps the source's names; where several Go structs
  share a field name, the field is written with its record's name in front
  (\<open>http_Response.Body\<close>, \<open>Config.Timeout\<close>).

  Go's \<^verbatim>\<open>int\<close> and \<^verbatim>\<open>time.Duration\<close> are modelled by \<open>int\<close>: the only arithmetic
  of the package is the negation in \<^verbatim>\<open>RemoveWorkers\<close>, guarded by \<^verbatim>\<open>count > 0\<close>, where
  no overflow is possible. A pointer that may be \<^verbatim>\<open>nil\<close> is an \<open>option\<close>.
\<close>

subsection \<open>messages.go: priorities, topics, payloads\<close>

type_synonym Priority = string




type_synonym Topic = string


text \<open>\<^verbatim>\<open>ObjectBody\<close> is an \<^verbatim>\<open>interface{}\<close>, forwarded uninterpreted: a type parameter.\<close>

record 'o MessageRequest =
  ItemID :: string
  Priority :: Priority
  Topic :: Topic
  CallbackURL :: string
  ObjectBody :: 'o

record MessageResponse =
  ID :: string
  Status :: string
  ItemID :: string
  Priority :: Priority
  Topic :: Topic

record 'o BulkMessageRequest =
  Messages :: "'o MessageRequest list"

record BulkMessageResponse =
  Status :: string
  Count :: int
  Messages :: "MessageResponse list"

subsection \<open>workers.go: worker status and scaling results\<close>

record WorkerInfo =
  ID :: string
  QueueName :: string
  Status :: string
  StartedAt :: string

record PriorityWorkerInfo =
  Count :: int
  QueueDepth :: int
  Workers :: "WorkerInfo list"

record WorkerStatusResponse =
  TotalWorkers :: int
  LowPriority :: PriorityWorkerInfo
  MediumPriority :: PriorityWorkerInfo
  HighPriority :: PriorityWorkerInfo
  AllWorkers :: "WorkerInfo list"

record ScaleWorkersResponse =
  Status :: string
  Message :: string
  Priority :: string
  Count :: int
  Action :: string

record RemoveAllWorkersResponse =
  Status :: string
  Message :: string
  TotalRemoved :: int
  Errors :: "string list"

subsection \<open>health.go\<close>

record HealthResponse =
  Status :: string

subsection \<open>Zero values\<close>

text \<open>
  Each operation declares its result with \<^verbatim>\<open>var x T\<close>, the zero value of \<open>T\<close>, and hands
  \<^verbatim>\<open>&x\<close> to the decoder.
\<close>

definition zero_MessageResponse :: MessageResponse where
  "zero_MessageResponse =
     \<lparr>MessageResponse.ID = [], MessageResponse.Status = [], MessageResponse.ItemID = [],
      MessageResponse.Priority = [], MessageResponse.Topic = []\<rparr>"

definition zero_BulkMessageResponse :: BulkMessageResponse where
  "zero_BulkMessageResponse =
     \<lparr>BulkMessageResponse.Status = [], BulkMessageResponse.Count = 0,
      BulkMessageResponse.Messages = []\<rparr>"

definition zero_PriorityWorkerInfo :: PriorityWorkerInfo where
  "zero_PriorityWorkerInfo =
     \<lparr>PriorityWorkerInfo.Count = 0, QueueDepth = 0, Workers = []\<rparr>"

definition zero_WorkerStatusResponse :: WorkerStatusResponse where
  "zero_WorkerStatusResponse =
     \<lparr>TotalWorkers = 0, LowPriority = zero_PriorityWorkerInfo,
      MediumPriority = zero_PriorityWorkerInfo, HighPriority = zero_PriorityWorkerInfo,
      AllWorkers = []\<rparr>"

definition zero_ScaleWorkersResponse :: ScaleWorkersResponse where
  "zero_ScaleWorkersResponse =
     \<lparr>ScaleWorkersResponse.Status = [], ScaleWorkersResponse.Message = [],
      ScaleWorkersResponse.Priority = [], ScaleWorkersResponse.Count = 0, Action = []\<rparr>"

definition zero_RemoveAllWorkersResponse :: RemoveAllWorkersResponse where
  "zero_RemoveAllWorkersResponse =
     \<lparr>RemoveAllWorkersResponse.Status = [], RemoveAllWorkersResponse.Message = [],
      TotalRemoved = 0, Errors = []\<rparr>"

subsection \<open>Errors\<close>

text \<open>
  The package has one error type of its own, \<^verbatim>\<open>*APIError\<close> (status code and message);
  every other error is built by \<^verbatim>\<open>fmt.Errorf\<close>. The model gives each kind of
  \<^verbatim>\<open>fmt.Errorf\<close> site its own constructor, carrying the message the site builds:
  \<^item> \<open>ValidationError\<close>: a local precondition check (\<^verbatim>\<open>"priority is required"\<close>, ...);
  \<^item> \<open>SerializationError\<close>: \<^verbatim>\<open>"failed to marshal request body: %w"\<close>;
  \<^item> \<open>RequestCreationError\<close>: \<^verbatim>\<open>"failed to create request: %w"\<close>;
  \<^item> \<open>TransportError\<close>: \<^verbatim>\<open>"request failed: %w"\<close>;
  \<^item> \<open>BodyReadError\<close>: \<^verbatim>\<open>"failed to read response body: %w"\<close>;
  \<^item> \<open>DecodeError\<close>: \<^verbatim>\<open>"failed to unmarshal response: %w"\<close>.
\<close>

datatype sdk_error =
    ValidationError string
  | SerializationError string
  | RequestCreationError string
  | TransportError string
  | BodyReadError string
  | DecodeError string
  | APIError int string


text \<open>The error of a Go result pair \<^verbatim>\<open>(value, err)\<close>.\<close>

fun err_of :: "sdk_error + 'a \<Rightarrow> sdk_error option" where
  "err_of (Inl e) = Some e"
| "err_of (Inr v) = None"

subsection \<open>\<^verbatim>\<open>%d\<close>: decimal rendering of an integer\<close>

fun show_nat :: "nat \<Rightarrow> string" where
  "show_nat n =
     (if n < 10 then [''0123456789'' ! n]
      else show_nat (n div 10) @ [''0123456789'' ! (n mod 10)])"

declare show_nat.simps [simp del]

definition show_int :: "int \<Rightarrow> string" where
  "show_int i = (if i < 0 then CHR ''-'' # show_nat (nat (- i)) else show_nat (nat i))"

section \<open>client.go: the client, the transport wrapper, the response decoder\<close>

subsection \<open>The platform: \<^verbatim>\<open>net/http\<close>, \<^verbatim>\<open>encoding/json\<close> and the remote server\<close>

text \<open>
  A \<^verbatim>\<open>context.Context\<close> is an interface value: \<^verbatim>\<open>nil\<close>, \<^verbatim>\<open>context.Background()\<close>, or
  any other context, named by a number.
\<close>

datatype go_context = NilContext | Background | Derived nat

record http_Request =
  Ctx :: go_context
  Method :: string
  URL :: string
  Body :: "string option"
  Header :: "(string \<times> string) list"

text \<open>
  The body of a response is a stream that \<^verbatim>\<open>io.ReadAll\<close> reads: \<open>Inr bytes\<close> when the
  read succeeds, \<open>Inl e\<close> when it fails with \<open>e\<close>.
\<close>

record http_Response =
  StatusCode :: int
  Body :: "string + string"

record http_Client =
  Timeout :: int

text \<open>\<^verbatim>\<open>json.Marshal\<close> is applied to a \<^verbatim>\<open>*MessageRequest\<close> or a \<^verbatim>\<open>*BulkMessageRequest\<close>.\<close>

datatype 'o payload =
    MessagePayload "'o MessageRequest"
  | BulkPayload "'o BulkMessageRequest"

text \<open>
  What the package calls and does not define is a parameter of the model. Each function
  returns \<open>Inl e\<close> for the Go error with message \<open>e\<close>:
  \<^item> \<open>json_Marshal\<close>: \<^verbatim>\<open>json.Marshal\<close> on a request payload;
  \<^item> \<open>url_Parse_error\<close>: the error of \<^verbatim>\<open>url.Parse\<close> inside
    \<^verbatim>\<open>http.NewRequestWithContext\<close>, \<open>None\<close> when the URL parses;
  \<^item> \<open>Do\<close>: \<^verbatim>\<open>(*http.Client).Do\<close>, that is the transport and the remote server. Its answer
    may depend on the client's settings, on the requests handed to it before (oldest
    first) and on the request (with its context);
  \<^item> \<open>Unmarshal_T\<close>: \<^verbatim>\<open>json.Unmarshal(body, &x)\<close> for a zero-valued \<open>x\<close> of type \<open>T\<close>.
\<close>

record 'o platform =
  json_Marshal :: "'o payload \<Rightarrow> string + string"
  url_Parse_error :: "string \<Rightarrow> string option"
  Do :: "http_Client \<Rightarrow> http_Request list \<Rightarrow> http_Request \<Rightarrow> string + http_Response"
  Unmarshal_MessageResponse :: "string \<Rightarrow> string + MessageResponse"
  Unmarshal_BulkMessageResponse :: "string \<Rightarrow> string + BulkMessageResponse"
  Unmarshal_WorkerStatusResponse :: "string \<Rightarrow> string + WorkerStatusResponse"
  Unmarshal_ScaleWorkersResponse :: "string \<Rightarrow> string + ScaleWorkersResponse"
  Unmarshal_RemoveAllWorkersResponse :: "string \<Rightarrow> string + RemoveAllWorkersResponse"

text \<open>
  The state of a run is the list of requests handed to \<^verbatim>\<open>httpClient.Do\<close> so far, oldest
  first: the network calls issued.
\<close>

type_synonym network = "http_Request list"

subsection \<open>\<^verbatim>\<open>Config\<close>, \<^verbatim>\<open>Client\<close>, \<^verbatim>\<open>NewClient\<close>\<close>

record Client =
  baseURL :: string
  httpClient :: http_Client
  timeout :: int

record Config =
  BaseURL :: string
  Timeout :: int

text \<open>\<^verbatim>\<open>time.Second\<close>, in nanoseconds.\<close>

definition Second :: int where
  "Second = 1000000000"

definition DefaultConfig :: Config where
  "DefaultConfig = \<lparr>BaseURL = ''http://localhost:8083'', Config.Timeout = 30 * Second\<rparr>"

text \<open>
  \<^verbatim>\<open>NewClient\<close> replaces a \<^verbatim>\<open>nil\<close> config by the default one, then a zero timeout by
  30 seconds (written into the caller's \<^verbatim>\<open>Config\<close>: \<open>NewClient_config\<close> is the config
  after both steps), and copies the base URL as it is.
\<close>

definition NewClient_config :: "Config option \<Rightarrow> Config" where
  "NewClient_config config =
     (let config1 = (case config of None \<Rightarrow> DefaultConfig | Some cfg \<Rightarrow> cfg)
      in if Config.Timeout config1 = 0 then config1\<lparr>Config.Timeout := 30 * Second\<rparr>
         else config1)"

definition NewClient :: "Config option \<Rightarrow> Client" where
  "NewClient config =
     (let config2 = NewClient_config config
      in \<lparr>baseURL = BaseURL config2,
          httpClient = \<lparr>http_Client.Timeout = Config.Timeout config2\<rparr>,
          timeout = Config.Timeout config2\<rparr>)"

definition NewClientWithDefaults :: Client where
  "NewClientWithDefaults = NewClient (Some DefaultConfig)"

subsection \<open>\<^verbatim>\<open>doRequest\<close>\<close>

text \<open>
  \<^verbatim>\<open>http.NewRequestWithContext\<close> refuses a \<^verbatim>\<open>nil\<close> context and a URL that does not
  parse (the methods the package passes are the constants \<^verbatim>\<open>GET\<close> and \<^verbatim>\<open>POST\<close>); the new
  request has no header.
\<close>

definition NewRequestWithContext ::
  "'o platform \<Rightarrow> go_context \<Rightarrow> string \<Rightarrow> string \<Rightarrow> string option \<Rightarrow> string + http_Request"
where
  "NewRequestWithContext pf ctx httpMethod urlStr reqBody =
     (if ctx = NilContext then Inl ''net/http: nil Context''
      else case url_Parse_error pf urlStr of
        Some e \<Rightarrow> Inl e
      | None \<Rightarrow>
          Inr \<lparr>Ctx = ctx, Method = httpMethod, URL = urlStr,
               http_Request.Body = reqBody, Header = []\<rparr>)"

text \<open>\<^verbatim>\<open>Header.Set\<close> replaces the values of a key.\<close>

definition Header_Set :: "string \<Rightarrow> string \<Rightarrow> http_Request \<Rightarrow> http_Request" where
  "Header_Set k v req =
     req\<lparr>Header := filter (\<lambda>kv. fst kv \<noteq> k) (Header req) @ [(k, v)]\<rparr>"

definition doRequest ::
  "'o platform \<Rightarrow> Client \<Rightarrow> go_context \<Rightarrow> string \<Rightarrow> string \<Rightarrow> 'o payload option \<Rightarrow>
   network \<Rightarrow> (sdk_error + http_Response) \<times> network"
where
  "doRequest pf c ctx httpMethod path body net =
     (case (case body of
              None \<Rightarrow> Inr None
            | Some b \<Rightarrow>
                (case json_Marshal pf b of
                   Inl e \<Rightarrow> Inl (SerializationError (''failed to marshal request body: '' @ e))
                 | Inr jsonData \<Rightarrow> Inr (Some jsonData))) of
        Inl err \<Rightarrow> (Inl err, net)
      | Inr reqBody \<Rightarrow>
          (case NewRequestWithContext pf ctx httpMethod (baseURL c @ path) reqBody of
             Inl e \<Rightarrow> (Inl (RequestCreationError (''failed to create request: '' @ e)), net)
           | Inr req0 \<Rightarrow>
               (let req = (if body \<noteq> None
                           then Header_Set ''Content-Type'' ''application/json'' req0
                           else req0)
                in case Do pf (httpClient c) net req of
                     Inl e \<Rightarrow> (Inl (TransportError (''request failed: '' @ e)), net @ [req])
                   | Inr resp \<Rightarrow> (Inr resp, net @ [req]))))"

subsection \<open>\<^verbatim>\<open>parseResponse\<close>\<close>

text \<open>
  The target is \<^verbatim>\<open>nil\<close> (\<open>None\<close>) or a pointer to a zero value, given by the
  \<^verbatim>\<open>json.Unmarshal\<close> that fills it. The result is the error, or what the target holds
  afterwards: \<open>Inr None\<close> when nothing was decoded. (The deferred \<^verbatim>\<open>resp.Body.Close()\<close>
  changes nothing that the model observes.)
\<close>

definition parseResponse ::
  "http_Response \<Rightarrow> (string \<Rightarrow> string + 'a) option \<Rightarrow> sdk_error + 'a option"
where
  "parseResponse resp target =
     (case http_Response.Body resp of
        Inl e \<Rightarrow> Inl (BodyReadError (''failed to read response body: '' @ e))
      | Inr body \<Rightarrow>
          if StatusCode resp \<ge> 400 then Inl (APIError (StatusCode resp) body)
          else (case target of
                  None \<Rightarrow> Inr None
                | Some unmarshal \<Rightarrow>
                    (case unmarshal body of
                       Inl e \<Rightarrow> Inl (DecodeError (''failed to unmarshal response: '' @ e))
                     | Inr v \<Rightarrow> Inr (Some v))))"

text \<open>
  The pattern every JSON operation ends with:
  \<^verbatim>\<open>var x T; if err := c.parseResponse(resp, &x); err != nil { return nil, err }; return &x, nil\<close>.
\<close>

definition decode_into :: "http_Response \<Rightarrow> (string \<Rightarrow> string + 'a) \<Rightarrow> 'a \<Rightarrow> sdk_error + 'a" where
  "decode_into resp unmarshal zero =
     (case parseResponse resp (Some unmarshal) of
        Inl err \<Rightarrow> Inl err
      | Inr None \<Rightarrow> Inr zero
      | Inr (Some v) \<Rightarrow> Inr v)"

section \<open>messages.go: message operations\<close>

definition PostMessage ::
  "'o platform \<Rightarrow> Client \<Rightarrow> go_context \<Rightarrow> 'o MessageRequest option \<Rightarrow> network \<Rightarrow>
   (sdk_error + MessageResponse) \<times> network"
where
  "PostMessage pf c ctx req net =
     (case req of
        None \<Rightarrow> (Inl (ValidationError ''message request cannot be nil''), net)
      | Some r \<Rightarrow>
          (case doRequest pf c ctx ''POST'' ''/api/v1/messages'' (Some (MessagePayload r)) net of
             (Inl err, net') \<Rightarrow> (Inl err, net')
           | (Inr resp, net') \<Rightarrow>
               (decode_into resp (Unmarshal_MessageResponse pf) zero_MessageResponse, net')))"

definition PostBulkMessages ::
  "'o platform \<Rightarrow> Client \<Rightarrow> go_context \<Rightarrow> 'o BulkMessageRequest option \<Rightarrow> network \<Rightarrow>
   (sdk_error + BulkMessageResponse) \<times> network"
where
  "PostBulkMessages pf c ctx req net =
     (case req of
        None \<Rightarrow> (Inl (ValidationError ''bulk message request cannot be nil''), net)
      | Some r \<Rightarrow>
          if length (BulkMessageRequest.Messages r) = 0
          then (Inl (ValidationError ''no messages provided''), net)
          else
            (case doRequest pf c ctx ''POST'' ''/api/v1/messages/bulk'' (Some (BulkPayload r)) net of
               (Inl err, net') \<Rightarrow> (Inl err, net')
             | (Inr resp, net') \<Rightarrow>
                 (decode_into resp (Unmarshal_BulkMessageResponse pf) zero_BulkMessageResponse,
                  net')))"




section \<open>workers.go: worker operations\<close>

definition GetWorkerStatus ::
  "'o platform \<Rightarrow> Client \<Rightarrow> go_context \<Rightarrow> network \<Rightarrow>
   (sdk_error + WorkerStatusResponse) \<times> network"
where
  "GetWorkerStatus pf c ctx net =
     (case doRequest pf c ctx ''GET'' ''/api/v1/workers/status'' None net of
        (Inl err, net') \<Rightarrow> (Inl err, net')
      | (Inr resp, net') \<Rightarrow>
          (decode_into resp (Unmarshal_WorkerStatusResponse pf) zero_WorkerStatusResponse,
           net'))"

text \<open>The path is \<^verbatim>\<open>fmt.Sprintf("/api/v1/workers/scale/%s?count=%d", priority, count)\<close>.\<close>

definition ScaleWorkers ::
  "'o platform \<Rightarrow> Client \<Rightarrow> go_context \<Rightarrow> string \<Rightarrow> int \<Rightarrow> network \<Rightarrow>
   (sdk_error + ScaleWorkersResponse) \<times> network"
where
  "ScaleWorkers pf c ctx priority count net =
     (if priority = '''' then (Inl (ValidationError ''priority is required''), net)
      else if priority \<noteq> ''low'' \<and> priority \<noteq> ''medium'' \<and> priority \<noteq> ''high''
      then (Inl (ValidationError
                   (''priority must be 'low', 'medium', or 'high'' @ [CHR 0x27])), net)
      else if count = 0 then (Inl (ValidationError ''count cannot be 0''), net)
      else
        (let path = ''/api/v1/workers/scale/'' @ priority @ ''?count='' @ show_int count
         in case doRequest pf c ctx ''POST'' path None net of
              (Inl err, net') \<Rightarrow> (Inl err, net')
            | (Inr resp, net') \<Rightarrow>
                (decode_into resp (Unmarshal_ScaleWorkersResponse pf) zero_ScaleWorkersResponse,
                 net')))"

definition AddWorkers ::
  "'o platform \<Rightarrow> Client \<Rightarrow> go_context \<Rightarrow> string \<Rightarrow> int \<Rightarrow> network \<Rightarrow>
   (sdk_error + ScaleWorkersResponse) \<times> network"
where
  "AddWorkers pf c ctx priority count net =
     (if count \<le> 0 then (Inl (ValidationError ''count must be greater than 0''), net)
      else ScaleWorkers pf c ctx priority count net)"

definition RemoveWorkers ::
  "'o platform \<Rightarrow> Client \<Rightarrow> go_context \<Rightarrow> string \<Rightarrow> int \<Rightarrow> network \<Rightarrow>
   (sdk_error + ScaleWorkersResponse) \<times> network"
where
  "RemoveWorkers pf c ctx priority count net =
     (if count \<le> 0 then (Inl (ValidationError ''count must be greater than 0''), net)
      else ScaleWorkers pf c ctx priority (- count) net)"


text \<open>
  \<^verbatim>\<open>GetWorkerCount\<close> fetches the status first; the \<^verbatim>\<open>switch\<close> on the priority, with its
  \<^verbatim>\<open>default\<close> branch, runs on the fetched status.
\<close>

definition GetWorkerCount ::
  "'o platform \<Rightarrow> Client \<Rightarrow> go_context \<Rightarrow> string \<Rightarrow> network \<Rightarrow> (sdk_error + int) \<times> network"
where
  "GetWorkerCount pf c ctx priority net =
     (case GetWorkerStatus pf c ctx net of
        (Inl err, net') \<Rightarrow> (Inl err, net')
      | (Inr status, net') \<Rightarrow>
          (if priority = ''low'' then Inr (PriorityWorkerInfo.Count (LowPriority status))
           else if priority = ''medium'' then Inr (PriorityWorkerInfo.Count (MediumPriority status))
           else if priority = ''high'' then Inr (PriorityWorkerInfo.Count (HighPriority status))
           else Inl (ValidationError (''invalid priority: '' @ priority)),
           net'))"


section \<open>health.go: health operations\<close>

text \<open>
  \<^verbatim>\<open>CheckHealth\<close> never reads the body of the response: it looks at the status code
  only. Its error message is
  \<^verbatim>\<open>fmt.Sprintf("health check failed with status %d", resp.StatusCode)\<close>.
\<close>

definition CheckHealth ::
  "'o platform \<Rightarrow> Client \<Rightarrow> go_context \<Rightarrow> network \<Rightarrow> (sdk_error + HealthResponse) \<times> network"
where
  "CheckHealth pf c ctx net =
     (case doRequest pf c ctx ''GET'' ''/health'' None net of
        (Inl err, net') \<Rightarrow> (Inl err, net')
      | (Inr resp, net') \<Rightarrow>
          (if StatusCode resp \<noteq> 200
           then Inl (APIError (StatusCode resp)
                       (''health check failed with status '' @ show_int (StatusCode resp)))
           else Inr \<lparr>HealthResponse.Status = ''OK''\<rparr>,
           net'))"

definition IsHealthy :: "'o platform \<Rightarrow> Client \<Rightarrow> go_context \<Rightarrow> network \<Rightarrow> bool \<times> network" where
  "IsHealthy pf c ctx net =
     (case CheckHealth pf c ctx net of
        (res, net') \<Rightarrow> (err_of res = None, net'))"


section \<open>A test double\<close>

text \<open>
  The tests of the package (\<^verbatim>\<open>client_test.go\<close>) run the client against an
  \<^verbatim>\<open>httptest\<close> server whose handler writes one status code and one body.
  \<open>httptest_platform code body\<close> is that platform: every request handed to \<open>Do\<close> is
  answered with \<open>code\<close> and \<open>body\<close>; a URL that starts with a colon does not parse
  (\<^verbatim>\<open>missing protocol scheme\<close>) and every other URL does; a payload marshals to a fixed
  text; a body unmarshals into the zero value when it is \<^verbatim>\<open>{}\<close> and fails otherwise.
\<close>

definition unmarshal_stub :: "'a \<Rightarrow> string \<Rightarrow> string + 'a" where
  "unmarshal_stub zero body =
     (if body = ''{}'' then Inr zero else Inl ''invalid character'')"

definition httptest_platform :: "int \<Rightarrow> string \<Rightarrow> unit platform" where
  "httptest_platform code body =
     \<lparr>json_Marshal = (\<lambda>p. Inr ''{}''),
      url_Parse_error =
        (\<lambda>u. if take 1 u = '':'' then Some ''missing protocol scheme'' else None),
      Do = (\<lambda>hc sent req. Inr \<lparr>StatusCode = code, http_Response.Body = Inr body\<rparr>),
      Unmarshal_MessageResponse = unmarshal_stub zero_MessageResponse,
      Unmarshal_BulkMessageResponse = unmarshal_stub zero_BulkMessageResponse,
      Unmarshal_WorkerStatusResponse = unmarshal_stub zero_WorkerStatusResponse,
      Unmarshal_ScaleWorkersResponse = unmarshal_stub zero_ScaleWorkersResponse,
      Unmarshal_RemoveAllWorkersResponse = unmarshal_stub zero_RemoveAllWorkersResponse\<rparr>"

section \<open>Facts about the transport wrapper and the response decoder\<close>



lemma doRequest_no_body:
  "doRequest pf c ctx m path None net =
     (if ctx = NilContext
      then (Inl (RequestCreationError ''failed to create request: net/http: nil Context''), net)
      else case url_Parse_error pf (baseURL c @ path) of
        Some e \<Rightarrow> (Inl (RequestCreationError (''failed to create request: '' @ e)), net)
      | None \<Rightarrow>
          (let req = \<lparr>Ctx = ctx, Method = m, URL = baseURL c @ path,
                      http_Request.Body = None, Header = []\<rparr>
           in case Do pf (httpClient c) net req of
                Inl e \<Rightarrow> (Inl (TransportError (''request failed: '' @ e)), net @ [req])
              | Inr resp \<Rightarrow> (Inr resp, net @ [req])))"
  by (simp add: doRequest_def NewRequestWithContext_def Let_def split: option.splits sum.splits)











lemma GetWorkerStatus_sends:
  assumes "ctx \<noteq> NilContext"
    and "url_Parse_error pf (baseURL c @ ''/api/v1/workers/status'') = None"
  shows "snd (GetWorkerStatus pf c ctx net) =
           net @ [\<lparr>Ctx = ctx, Method = ''GET'', URL = baseURL c @ ''/api/v1/workers/status'',
                    http_Request.Body = None, Header = []\<rparr>]"
  using assms
  by (simp add: GetWorkerStatus_def doRequest_no_body Let_def split: sum.splits)

section \<open>The claims\<close>

subsection \<open>C1: \<^verbatim>\<open>GetWorkerCount\<close> and a priority outside low, medium, high\<close>

text \<open>
  Claim C1, as stated: for every priority outside \<open>{low, medium, high}\<close>,
  \<^verbatim>\<open>GetWorkerCount\<close> returns a \<open>ValidationError\<close> and issues no network call; it does not
  call \<^verbatim>\<open>GetWorkerStatus\<close> before rejecting the priority.
  The code fetches the status first. Against a server that answers 200 with a body
  that decodes, the priority \<^verbatim>\<open>urgent\<close> is rejected after one \<^verbatim>\<open>GET\<close> request was handed to
  the HTTP client; against a server that answers 500, the result is the \<open>APIError\<close> of
  the fetch, not a \<open>ValidationError\<close>.
\<close>

theorem GetWorkerCount_invalid_priority_counterexample:
  "GetWorkerCount (httptest_platform 200 ''{}'') NewClientWithDefaults Background ''urgent'' [] =
     (Inl (ValidationError ''invalid priority: urgent''),
      [\<lparr>Ctx = Background, Method = ''GET'',
         URL = ''http://localhost:8083/api/v1/workers/status'',
         http_Request.Body = None, Header = []\<rparr>])
   \<and> fst (GetWorkerCount (httptest_platform 500 ''Service Unavailable'') NewClientWithDefaults
            Background ''urgent'' []) =
     Inl (APIError 500 ''Service Unavailable'')"
  by (simp add: GetWorkerCount_def GetWorkerStatus_def doRequest_no_body Let_def
      httptest_platform_def NewClientWithDefaults_def NewClient_def NewClient_config_def
      DefaultConfig_def Second_def decode_into_def parseResponse_def unmarshal_stub_def)

text \<open>
  Claim C1, amended: for every priority outside \<open>{low, medium, high}\<close>,
  \<^verbatim>\<open>GetWorkerCount\<close> runs \<^verbatim>\<open>GetWorkerStatus\<close> first; it returns the error of the fetch when
  the fetch fails, and the \<open>ValidationError\<close> \<^verbatim>\<open>invalid priority: <priority>\<close> when the fetch
  succeeds; the requests issued are those of the fetch. When the context is not \<^verbatim>\<open>nil\<close>
  and the URL parses, that is one \<^verbatim>\<open>GET\<close> request to \<^verbatim>\<open>/api/v1/workers/status\<close>.
\<close>

theorem GetWorkerCount_invalid_priority:
  assumes "priority \<noteq> ''low''" and "priority \<noteq> ''medium''" and "priority \<noteq> ''high''"
  shows "GetWorkerCount pf c ctx priority net =
           (case GetWorkerStatus pf c ctx net of
              (Inl err, net') \<Rightarrow> (Inl err, net')
            | (Inr status, net') \<Rightarrow>
                (Inl (ValidationError (''invalid priority: '' @ priority)), net'))
         \<and> (ctx \<noteq> NilContext \<and>
             url_Parse_error pf (baseURL c @ ''/api/v1/workers/status'') = None \<longrightarrow>
             snd (GetWorkerCount pf c ctx priority net) =
               net @ [\<lparr>Ctx = ctx, Method = ''GET'',
                        URL = baseURL c @ ''/api/v1/workers/status'',
                        http_Request.Body = None, Header = []\<rparr>])"
proof -
  have res: "GetWorkerCount pf c ctx priority net =
           (case GetWorkerStatus pf c ctx net of
              (Inl err, net') \<Rightarrow> (Inl err, net')
            | (Inr status, net') \<Rightarrow>
                (Inl (ValidationError (''invalid priority: '' @ priority)), net'))"
    using assms by (simp add: GetWorkerCount_def split: prod.splits sum.splits)
  have "snd (GetWorkerCount pf c ctx priority net) = snd (GetWorkerStatus pf c ctx net)"
    by (simp add: GetWorkerCount_def split: prod.splits sum.splits)
  then show ?thesis using res GetWorkerStatus_sends[of ctx pf c net] by simp
qed

text \<open>
  Claim C1, witness: the amended statement at the empty priority, against a server
  that answers 200.
\<close>

theorem GetWorkerCount_invalid_priority_witness:
  "GetWorkerCount (httptest_platform 200 ''{}'') NewClientWithDefaults Background '''' [] =
     (Inl (ValidationError ''invalid priority: ''),
      [\<lparr>Ctx = Background, Method = ''GET'',
         URL = ''http://localhost:8083/api/v1/workers/status'',
         http_Request.Body = None, Header = []\<rparr>])"
proof -
  have p: "'''' \<noteq> ''low''" "'''' \<noteq> ''medium''" "'''' \<noteq> ''high''" by simp_all
  show ?thesis
    using GetWorkerCount_invalid_priority[OF p, of "httptest_platform 200 ''{}''"
        NewClientWithDefaults Background "[]"]
    by (simp add: GetWorkerStatus_def doRequest_no_body Let_def
      httptest_platform_def NewClientWithDefaults_def NewClient_def NewClient_config_def
      DefaultConfig_def Second_def decode_into_def parseResponse_def unmarshal_stub_def)
qed

subsection \<open>C2: \<open>APIError\<close> and 2xx responses\<close>




subsection \<open>C3: the response decoder\<close>

text \<open>
  Claim C3, as stated: for every response with status code at least 400 the decoder
  returns \<open>APIError\<close> with that status code and the raw body, whatever the body holds,
  and never parses the body; for a status below 400 and a requested target, a JSON
  failure yields a \<open>DecodeError\<close>; for a status below 400 and no target, the call
  succeeds without parsing.
  The decoder reads the body before it looks at the status code, and returns the
  failure of \<^verbatim>\<open>io.ReadAll\<close> when the read fails: a response with status 500 whose body
  breaks off yields that failure, not an \<open>APIError\<close>.
\<close>

theorem parseResponse_unreadable_body_counterexample:
  "parseResponse \<lparr>StatusCode = 500, http_Response.Body = Inl ''unexpected EOF''\<rparr>
     (Some (unmarshal_stub zero_MessageResponse)) =
   Inl (BodyReadError ''failed to read response body: unexpected EOF'')"
  by (simp add: parseResponse_def)

text \<open>
  Claim C3, amended: for every response whose body is read without error: with a
  status code of at least 400 the decoder returns \<open>APIError\<close> with that status code and
  the raw body, for every target (the body is never handed to \<^verbatim>\<open>json.Unmarshal\<close>); with
  a status code below 400 and a target, a failure \<open>e\<close> of \<^verbatim>\<open>json.Unmarshal\<close> yields the
  \<open>DecodeError\<close> that wraps \<open>e\<close>; with a status code below 400 and no target, the call
  succeeds and decodes nothing. A response whose body cannot be read yields the
  \<open>BodyReadError\<close> that wraps the failure, on every status code.
\<close>

theorem parseResponse_classification:
  "(http_Response.Body resp = Inr body \<and> StatusCode resp \<ge> 400 \<longrightarrow>
      parseResponse resp target = Inl (APIError (StatusCode resp) body))
   \<and> (http_Response.Body resp = Inr body \<and> StatusCode resp < 400 \<and> unmarshal body = Inl e \<longrightarrow>
      parseResponse resp (Some unmarshal) =
        Inl (DecodeError (''failed to unmarshal response: '' @ e)))
   \<and> (http_Response.Body resp = Inr body \<and> StatusCode resp < 400 \<longrightarrow>
      parseResponse resp None = Inr None)
   \<and> (http_Response.Body resp = Inl e' \<longrightarrow>
      parseResponse resp target =
        Inl (BodyReadError (''failed to read response body: '' @ e')))"
  by (simp add: parseResponse_def)

text \<open>
  Claim C3, witness: a 500 response with a plain-text body; a 201 response whose body
  is not JSON, with and without a target; a response whose body cannot be read.
\<close>

theorem parseResponse_classification_witness:
  "parseResponse \<lparr>StatusCode = 500, http_Response.Body = Inr ''Service Unavailable''\<rparr>
     (Some (unmarshal_stub zero_MessageResponse)) =
     Inl (APIError 500 ''Service Unavailable'')
   \<and> parseResponse \<lparr>StatusCode = 201, http_Response.Body = Inr ''<html>''\<rparr>
     (Some (unmarshal_stub zero_MessageResponse)) =
     Inl (DecodeError ''failed to unmarshal response: invalid character'')
   \<and> parseResponse \<lparr>StatusCode = 201, http_Response.Body = Inr ''<html>''\<rparr>
     (None :: (string \<Rightarrow> string + MessageResponse) option) = Inr None
   \<and> parseResponse \<lparr>StatusCode = 200, http_Response.Body = Inl ''connection reset''\<rparr>
     (Some (unmarshal_stub zero_MessageResponse)) =
     Inl (BodyReadError ''failed to read response body: connection reset'')"
  using
    parseResponse_classification[of
      "\<lparr>StatusCode = 500, http_Response.Body = Inr ''Service Unavailable''\<rparr>"
      "''Service Unavailable''" "Some (unmarshal_stub zero_MessageResponse)"]
    parseResponse_classification[of
      "\<lparr>StatusCode = 201, http_Response.Body = Inr ''<html>''\<rparr>" "''<html>''" _
      "unmarshal_stub zero_MessageResponse" "''invalid character''"]
    parseResponse_classification[of
      "\<lparr>StatusCode = 200, http_Response.Body = Inl ''connection reset''\<rparr>" _
      "Some (unmarshal_stub zero_MessageResponse)" _ _ "''connection reset''"]
  by (simp add: unmarshal_stub_def)

subsection \<open>C4: validation in \<^verbatim>\<open>ScaleWorkers\<close>\<close>

text \<open>
  Claim C4: for every priority outside \<open>{low, medium, high}\<close>, the empty string
  included, and for a count of 0, \<^verbatim>\<open>ScaleWorkers\<close> returns a \<open>ValidationError\<close> and the
  requests issued are unchanged: validation comes before any request.
\<close>

theorem ScaleWorkers_validation:
  assumes "priority \<notin> {''low'', ''medium'', ''high''} \<or> count = 0"
  shows "\<exists>msg. ScaleWorkers pf c ctx priority count net = (Inl (ValidationError msg), net)"
  using assms by (auto simp: ScaleWorkers_def)

text \<open>
  Claim C4, witness: the inputs of \<^verbatim>\<open>TestScaleWorkersValidation\<close>: the empty priority,
  the priority \<^verbatim>\<open>invalid\<close>, and the count 0.
\<close>

theorem ScaleWorkers_validation_witness:
  "(\<exists>msg. ScaleWorkers (httptest_platform 200 ''{}'') NewClientWithDefaults Background
            '''' 1 [] = (Inl (ValidationError msg), []))
   \<and> (\<exists>msg. ScaleWorkers (httptest_platform 200 ''{}'') NewClientWithDefaults Background
            ''invalid'' 1 [] = (Inl (ValidationError msg), []))
   \<and> (\<exists>msg. ScaleWorkers (httptest_platform 200 ''{}'') NewClientWithDefaults Background
            ''high'' 0 [] = (Inl (ValidationError msg), []))"
proof -
  have a: "'''' \<notin> {''low'', ''medium'', ''high''} \<or> (1::int) = 0" by simp
  have b: "''invalid'' \<notin> {''low'', ''medium'', ''high''} \<or> (1::int) = 0" by simp
  have c: "''high'' \<notin> {''low'', ''medium'', ''high''} \<or> (0::int) = 0" by simp
  show ?thesis
    using ScaleWorkers_validation[OF a] ScaleWorkers_validation[OF b]
      ScaleWorkers_validation[OF c]
    by blast
qed

subsection \<open>C5: \<^verbatim>\<open>AddWorkers\<close> and \<^verbatim>\<open>RemoveWorkers\<close>\<close>

text \<open>
  Claim C5: for every count at most 0, \<^verbatim>\<open>AddWorkers\<close> and \<^verbatim>\<open>RemoveWorkers\<close> return a
  \<open>ValidationError\<close> and issue no request; for every count above 0, \<^verbatim>\<open>AddWorkers\<close> returns
  what \<^verbatim>\<open>ScaleWorkers\<close> returns on the count, and \<^verbatim>\<open>RemoveWorkers\<close> what \<^verbatim>\<open>ScaleWorkers\<close>
  returns on the negated count.
\<close>

theorem AddWorkers_RemoveWorkers:
  "(count \<le> 0 \<longrightarrow>
      AddWorkers pf c ctx priority count net =
        (Inl (ValidationError ''count must be greater than 0''), net) \<and>
      RemoveWorkers pf c ctx priority count net =
        (Inl (ValidationError ''count must be greater than 0''), net))
   \<and> (0 < count \<longrightarrow>
      AddWorkers pf c ctx priority count net = ScaleWorkers pf c ctx priority count net \<and>
      RemoveWorkers pf c ctx priority count net = ScaleWorkers pf c ctx priority (- count) net)"
  by (simp add: AddWorkers_def RemoveWorkers_def)

text \<open>
  Claim C5, witness: the counts -3 and 0 are refused; the count 2 is passed on, and
  \<^verbatim>\<open>RemoveWorkers\<close> then asks for \<^verbatim>\<open>count=-2\<close>.
\<close>

theorem AddWorkers_RemoveWorkers_witness:
  "AddWorkers (httptest_platform 200 ''{}'') NewClientWithDefaults Background ''high'' (- 3) [] =
     (Inl (ValidationError ''count must be greater than 0''), [])
   \<and> RemoveWorkers (httptest_platform 200 ''{}'') NewClientWithDefaults Background ''high'' 0 [] =
     (Inl (ValidationError ''count must be greater than 0''), [])
   \<and> AddWorkers (httptest_platform 200 ''{}'') NewClientWithDefaults Background ''high'' 2 [] =
     ScaleWorkers (httptest_platform 200 ''{}'') NewClientWithDefaults Background ''high'' 2 []
   \<and> RemoveWorkers (httptest_platform 200 ''{}'') NewClientWithDefaults Background ''high'' 2 [] =
     ScaleWorkers (httptest_platform 200 ''{}'') NewClientWithDefaults Background ''high'' (- 2) []
   \<and> snd (RemoveWorkers (httptest_platform 200 ''{}'') NewClientWithDefaults Background ''high'' 2 []) =
     [\<lparr>Ctx = Background, Method = ''POST'',
        URL = ''http://localhost:8083/api/v1/workers/scale/high?count=-2'',
        http_Request.Body = None, Header = []\<rparr>]"
  using
    AddWorkers_RemoveWorkers[of "- 3" "httptest_platform 200 ''{}''" NewClientWithDefaults
      Background "''high''" "[]"]
    AddWorkers_RemoveWorkers[of 0 "httptest_platform 200 ''{}''" NewClientWithDefaults
      Background "''high''" "[]"]
    AddWorkers_RemoveWorkers[of 2 "httptest_platform 200 ''{}''" NewClientWithDefaults
      Background "''high''" "[]"]
  by (simp add: ScaleWorkers_def doRequest_no_body Let_def show_int_def show_nat.simps
      httptest_platform_def NewClientWithDefaults_def NewClient_def NewClient_config_def
      DefaultConfig_def Second_def split: sum.splits)

subsection \<open>C6: validation in \<^verbatim>\<open>PostMessage\<close> and \<^verbatim>\<open>PostBulkMessages\<close>\<close>

text \<open>
  Claim C6: \<^verbatim>\<open>PostMessage\<close> with a \<^verbatim>\<open>nil\<close> request returns a \<open>ValidationError\<close>, and so does
  \<^verbatim>\<open>PostBulkMessages\<close> with a \<^verbatim>\<open>nil\<close> request or with an empty sequence of messages; in each
  case the requests issued are unchanged.
\<close>

theorem Post_validation:
  "PostMessage pf c ctx None net =
     (Inl (ValidationError ''message request cannot be nil''), net)
   \<and> PostBulkMessages pf c ctx None net =
     (Inl (ValidationError ''bulk message request cannot be nil''), net)
   \<and> PostBulkMessages pf c ctx (Some \<lparr>BulkMessageRequest.Messages = []\<rparr>) net =
     (Inl (ValidationError ''no messages provided''), net)"
  by (simp add: PostMessage_def PostBulkMessages_def)

subsection \<open>C7: the result of \<^verbatim>\<open>CheckHealth\<close>\<close>

text \<open>
  Claim C7: when the request of \<^verbatim>\<open>CheckHealth\<close> is answered by a response with status
  200, the result is the \<^verbatim>\<open>HealthResponse\<close> with the fixed status \<^verbatim>\<open>OK\<close>; when it is answered
  with any other status, the result is the \<open>APIError\<close> with that status code and the
  message \<^verbatim>\<open>health check failed with status\<close> followed by the status code. The body of
  the response, readable or not, and the JSON decoders have no part in the result.
\<close>

theorem CheckHealth_result:
  assumes "ctx \<noteq> NilContext"
    and "url_Parse_error pf (baseURL c @ ''/health'') = None"
    and "Do pf (httpClient c) net
           \<lparr>Ctx = ctx, Method = ''GET'', URL = baseURL c @ ''/health'',
            http_Request.Body = None, Header = []\<rparr> = Inr resp"
  shows "(StatusCode resp = 200 \<longrightarrow>
            fst (CheckHealth pf c ctx net) = Inr \<lparr>HealthResponse.Status = ''OK''\<rparr>)
       \<and> (StatusCode resp \<noteq> 200 \<longrightarrow>
            fst (CheckHealth pf c ctx net) =
              Inl (APIError (StatusCode resp)
                     (''health check failed with status '' @ show_int (StatusCode resp))))"
  using assms by (simp add: CheckHealth_def doRequest_no_body Let_def)

text \<open>
  Claim C7, witness: the servers of \<^verbatim>\<open>TestCheckHealth\<close> (200, body \<^verbatim>\<open>OK\<close>) and of
  \<^verbatim>\<open>TestCheckHealthError\<close> (500, body \<^verbatim>\<open>Service Unavailable\<close>).
\<close>

theorem CheckHealth_result_witness:
  "fst (CheckHealth (httptest_platform 200 ''OK'') NewClientWithDefaults Background []) =
     Inr \<lparr>HealthResponse.Status = ''OK''\<rparr>
   \<and> fst (CheckHealth (httptest_platform 500 ''Service Unavailable'') NewClientWithDefaults
           Background []) =
     Inl (APIError 500 ''health check failed with status 500'')"
proof -
  have ctx: "Background \<noteq> NilContext" by simp
  have url: "url_Parse_error (httptest_platform code body)
               (baseURL NewClientWithDefaults @ ''/health'') = None" for code body
    by (simp add: httptest_platform_def NewClientWithDefaults_def NewClient_def
        NewClient_config_def DefaultConfig_def Second_def Let_def)
  have resp: "Do (httptest_platform code body) (httpClient NewClientWithDefaults) []
           \<lparr>Ctx = Background, Method = ''GET'',
            URL = baseURL NewClientWithDefaults @ ''/health'',
            http_Request.Body = None, Header = []\<rparr> =
           Inr \<lparr>StatusCode = code, http_Response.Body = Inr body\<rparr>" for code body
    by (simp add: httptest_platform_def)
  show ?thesis
    using CheckHealth_result[OF ctx url resp, of 200 "''OK''"]
      CheckHealth_result[OF ctx url resp, of 500 "''Service Unavailable''"]
    by (simp add: show_int_def show_nat.simps)
qed

subsection \<open>C8: \<^verbatim>\<open>IsHealthy\<close>\<close>

text \<open>
  Claim C8: for every context and every platform, \<^verbatim>\<open>IsHealthy\<close> returns true if and only
  if \<^verbatim>\<open>CheckHealth\<close>, run from the same state, returns no error; both issue the same
  requests.
\<close>

theorem IsHealthy_iff_CheckHealth:
  "(fst (IsHealthy pf c ctx net) \<longleftrightarrow> (\<exists>h. fst (CheckHealth pf c ctx net) = Inr h))
   \<and> snd (IsHealthy pf c ctx net) = snd (CheckHealth pf c ctx net)"
proof (cases "CheckHealth pf c ctx net")
  case (Pair r net')
  then show ?thesis by (cases r) (simp_all add: IsHealthy_def)
qed

subsection \<open>C9: the request of \<^verbatim>\<open>ScaleWorkers(ctx, "high", 2)\<close>\<close>

text \<open>
  Claim C9, as stated: \<^verbatim>\<open>ScaleWorkers(ctx, "high", 2)\<close> issues exactly one HTTP request, a
  \<^verbatim>\<open>POST\<close> with no body to \<^verbatim>\<open>base URL + /api/v1/workers/scale/high?count=2\<close>.
  With a \<^verbatim>\<open>nil\<close> context, or with a base URL that has no scheme before its colon,
  \<^verbatim>\<open>http.NewRequestWithContext\<close> fails, \<^verbatim>\<open>doRequest\<close> returns
  \<^verbatim>\<open>failed to create request\<close> and nothing is handed to the HTTP client.
\<close>

theorem ScaleWorkers_nil_context_counterexample:
  "ScaleWorkers (httptest_platform 200 ''{}'') NewClientWithDefaults NilContext ''high'' 2 [] =
     (Inl (RequestCreationError ''failed to create request: net/http: nil Context''), [])
   \<and> ScaleWorkers (httptest_platform 200 ''{}'')
       (NewClient (Some \<lparr>BaseURL = ''://localhost:8083'', Config.Timeout = 0\<rparr>))
       Background ''high'' 2 [] =
     (Inl (RequestCreationError ''failed to create request: missing protocol scheme''), [])"
  by (simp add: ScaleWorkers_def doRequest_no_body httptest_platform_def NewClient_def
      NewClient_config_def Let_def)

text \<open>
  Claim C9, amended: \<^verbatim>\<open>ScaleWorkers(ctx, "high", 2)\<close> issues exactly one HTTP request when
  the request can be constructed (the context is not \<^verbatim>\<open>nil\<close> and the URL parses): a
  \<^verbatim>\<open>POST\<close> with no body and no header to the base URL followed by
  \<^verbatim>\<open>/api/v1/workers/scale/high?count=2\<close>; when the request cannot be constructed, it issues
  none and returns the error \<^verbatim>\<open>failed to create request:\<close> followed by the cause
  (\<^verbatim>\<open>net/http: nil Context\<close>, or the failure of the URL parser).
\<close>

theorem ScaleWorkers_high_2_request:
  "(ctx \<noteq> NilContext \<and>
    url_Parse_error pf (baseURL c @ ''/api/v1/workers/scale/high?count=2'') = None \<longrightarrow>
      snd (ScaleWorkers pf c ctx ''high'' 2 net) =
        net @ [\<lparr>Ctx = ctx, Method = ''POST'',
                 URL = baseURL c @ ''/api/v1/workers/scale/high?count=2'',
                 http_Request.Body = None, Header = []\<rparr>])
   \<and> (ctx = NilContext \<or>
      url_Parse_error pf (baseURL c @ ''/api/v1/workers/scale/high?count=2'') \<noteq> None \<longrightarrow>
      snd (ScaleWorkers pf c ctx ''high'' 2 net) = net)
   \<and> (ctx = NilContext \<longrightarrow>
      fst (ScaleWorkers pf c ctx ''high'' 2 net) =
        Inl (RequestCreationError ''failed to create request: net/http: nil Context''))
   \<and> (ctx \<noteq> NilContext \<and>
      url_Parse_error pf (baseURL c @ ''/api/v1/workers/scale/high?count=2'') = Some e \<longrightarrow>
      fst (ScaleWorkers pf c ctx ''high'' 2 net) =
        Inl (RequestCreationError (''failed to create request: '' @ e)))"
proof -
  have path: "''/api/v1/workers/scale/'' @ ''high'' @ ''?count='' @ show_int 2 =
        ''/api/v1/workers/scale/high?count=2''"
    by (simp add: show_int_def show_nat.simps)
  show ?thesis
    unfolding ScaleWorkers_def Let_def path
    by (auto simp: doRequest_no_body Let_def split: sum.splits option.splits)
qed

text \<open>
  Claim C9, witness: the default client, which issues the one request; a client whose
  base URL has no scheme and a \<^verbatim>\<open>nil\<close> context, which issue none and return
  \<^verbatim>\<open>failed to create request\<close> with the cause.
\<close>

theorem ScaleWorkers_high_2_request_witness:
  "snd (ScaleWorkers (httptest_platform 200 ''{}'') NewClientWithDefaults Background ''high'' 2 []) =
     [\<lparr>Ctx = Background, Method = ''POST'',
        URL = ''http://localhost:8083/api/v1/workers/scale/high?count=2'',
        http_Request.Body = None, Header = []\<rparr>]
   \<and> ScaleWorkers (httptest_platform 200 ''{}'')
         (NewClient (Some \<lparr>BaseURL = ''://localhost:8083'', Config.Timeout = 0\<rparr>))
         Background ''high'' 2 [] =
       (Inl (RequestCreationError ''failed to create request: missing protocol scheme''), [])
   \<and> ScaleWorkers (httptest_platform 200 ''{}'') NewClientWithDefaults NilContext ''high'' 2
         [] =
       (Inl (RequestCreationError ''failed to create request: net/http: nil Context''), [])"
  using
    ScaleWorkers_high_2_request[of Background "httptest_platform 200 ''{}''"
      NewClientWithDefaults "[]"]
    ScaleWorkers_high_2_request[of Background "httptest_platform 200 ''{}''"
      "NewClient (Some \<lparr>BaseURL = ''://localhost:8083'', Config.Timeout = 0\<rparr>)" "[]"
      "''missing protocol scheme''"]
    ScaleWorkers_high_2_request[of NilContext "httptest_platform 200 ''{}''"
      NewClientWithDefaults "[]"]
  by (simp add: httptest_platform_def NewClientWithDefaults_def NewClient_def
      NewClient_config_def DefaultConfig_def Second_def Let_def prod_eq_iff)

subsection \<open>C10: the defaults of \<^verbatim>\<open>NewClient\<close>\<close>

text \<open>
  Claim C10: for a config that is not \<^verbatim>\<open>nil\<close>, a timeout of 0 is replaced by 30 seconds
  (in the client and in its HTTP client), while the base URL is copied as it is, the
  empty string included; \<^verbatim>\<open>http://localhost:8083\<close> is the base URL only of a client built
  from a \<^verbatim>\<open>nil\<close> config.
\<close>

theorem NewClient_defaults:
  "timeout (NewClient (Some \<lparr>BaseURL = url, Config.Timeout = 0\<rparr>)) = 30 * Second
   \<and> http_Client.Timeout (httpClient (NewClient (Some \<lparr>BaseURL = url, Config.Timeout = 0\<rparr>))) =
       30 * Second
   \<and> 30 * Second = 30000000000
   \<and> baseURL (NewClient (Some \<lparr>BaseURL = '''', Config.Timeout = t\<rparr>)) = ''''
   \<and> baseURL (NewClient (Some cfg)) = BaseURL cfg
   \<and> baseURL (NewClient None) = ''http://localhost:8083''"
  by (simp add: NewClient_def NewClient_config_def DefaultConfig_def Second_def Let_def)

end
